theory Spec2Isabelle
  imports Main
begin

section \<open>The PowerDNS provider of dnscontrol: construction and capability declaration\<close>

text \<open>
  A shallow embedding of \<^verbatim>\<open>providers/powerdns/powerdnsProvider.go\<close>: the capability
  table \<^verbatim>\<open>features\<close>, the registration hook \<^verbatim>\<open>init\<close> and the constructor
  \<^verbatim>\<open>newDSP\<close>. Go strings are byte strings, so a \<open>string\<close> here is the list of the
  bytes; a Go \<^verbatim>\<open>map[string]string\<close> is a partial map; a Go result pair
  \<^verbatim>\<open>(value, error)\<close> is a pair of options (\<open>None\<close> is \<^verbatim>\<open>nil\<close>); a run-time
  panic is a result of its own.
\<close>

subsection \<open>Errors\<close>

text \<open>
  The error values that can leave \<^verbatim>\<open>newDSP\<close>: \<^verbatim>\<open>fmt.Errorf\<close> with a literal message,
  the two errors of \<^verbatim>\<open>encoding/json\<close> (\<^verbatim>\<open>*SyntaxError\<close>, and \<^verbatim>\<open>*UnmarshalTypeError\<close> with
  its fields \<^verbatim>\<open>Value\<close> and \<^verbatim>\<open>Type\<close>), \<^verbatim>\<open>*strconv.NumError\<close> with its fields \<^verbatim>\<open>Func\<close>,
  \<^verbatim>\<open>Num\<close> and \<^verbatim>\<open>Err\<close>, the rejection of a nameserver entry by the nameserver-model
  constructor, and an error made by a library outside this repository, kept as its message.
\<close>

datatype error =
    Errorf string
  | SyntaxError
  | UnmarshalTypeError string string
  | NumError string string string
  | InvalidNameserverEntry string
  | LibraryError string

subsection \<open>JSON documents\<close>

text \<open>
  The metadata argument is a \<^verbatim>\<open>json.RawMessage\<close>, a byte slice. \<^verbatim>\<open>newDSP\<close> looks at its
  length and hands it to \<^verbatim>\<open>json.Unmarshal\<close>, whose first pass scans the bytes: either they
  are not one JSON value (a \<^verbatim>\<open>*SyntaxError\<close>, and nothing is decoded), or they are. The
  model takes the bytes as what that scan makes of them. An object keeps its members in the
  order of the text, with duplicates; a member name is the unquoted name, in UTF-8; a number
  keeps its literal.
\<close>

datatype json =
    JNull
  | JBool bool
  | JNumber string
  | JString string
  | JArray "json list"
  | JObject "(string \<times> json) list"

datatype RawMessage =
    RawEmpty
  | RawInvalid
  | RawValue json

fun valueKind :: "json \<Rightarrow> string" where
  "valueKind JNull = ''null''"
| "valueKind (JBool b) = ''bool''"
| "valueKind (JNumber n) = ''number''"
| "valueKind (JString s) = ''string''"
| "valueKind (JArray vs) = ''array''"
| "valueKind (JObject kvs) = ''object''"

subsection \<open>The provider instance and the HTTP client\<close>

text \<open>
  \<^verbatim>\<open>models.Nameserver\<close> (not under \<^verbatim>\<open>src/\<close>) is the engine's nameserver representation, a
  struct around the name.
\<close>

datatype Nameserver = Nameserver (Name: string)

text \<open>
  The struct \<^verbatim>\<open>powerdnsProvider\<close> (lines 51-62). \<^verbatim>\<open>pdns.Client\<close> is an interface of the
  library \<^verbatim>\<open>go-powerdns\<close>: the type parameter \<open>'c\<close> is the type of its implementations and
  \<open>None\<close> is the nil interface. \<^verbatim>\<open>zones.ZoneKind\<close> is an \<^verbatim>\<open>int\<close> type of the same library.
  A nil slice and an empty slice are both the empty list: the code only ranges over them.
\<close>

record 'c powerdnsProvider =
  client :: "'c option"
  APIKey :: string
  APIUrl :: string
  ServerName :: string
  DefaultNS :: "string list"
  DNSSecOnCreate :: bool
  ZoneKind :: int
  SOAEditAPI :: string
  nameservers :: "Nameserver list"

text \<open>
  \<^verbatim>\<open>&powerdnsProvider{}\<close> (line 66): every field has its zero value.
\<close>

definition zeroProvider :: "'c powerdnsProvider" where
  "zeroProvider = \<lparr>client = None, APIKey = [], APIUrl = [], ServerName = [], DefaultNS = [],
     DNSSecOnCreate = False, ZoneKind = 0, SOAEditAPI = [], nameservers = []\<rparr>"

text \<open>
  Of \<^verbatim>\<open>http.Client\<close>, \<^verbatim>\<open>http.Transport\<close> and \<^verbatim>\<open>tls.Config\<close> the fields that \<^verbatim>\<open>newDSP\<close>
  writes; all others keep their zero value. \<^verbatim>\<open>Transport\<close> is \<open>None\<close> for the nil interface,
  \<^verbatim>\<open>RootCAs\<close> is \<open>None\<close> for the nil pool (the system's roots are used), and a certificate pool
  is the set of its certificates, each one its DER bytes.
\<close>

record tls_Config =
  InsecureSkipVerify :: bool
  RootCAs :: "string set option"

record http_Transport =
  TLSClientConfig :: tls_Config

record http_Client =
  Transport :: "http_Transport option"

text \<open>
  What \<^verbatim>\<open>newDSP\<close> calls outside this file and outside Go's \<^verbatim>\<open>encoding/json\<close> and
  \<^verbatim>\<open>strconv\<close>, as parameters:
  \<^item> \<open>ZoneKind_UnmarshalJSON\<close>: the method \<^verbatim>\<open>(*zones.ZoneKind).UnmarshalJSON\<close> of
    \<^verbatim>\<open>go-powerdns\<close>, from the JSON value to the kind or to the message of its error;
  \<^item> \<open>malformed\<close>: the entries that \<^verbatim>\<open>models.ToNameservers\<close> rejects;
  \<^item> \<open>parsePEM\<close>: the certificates of a PEM text that \<^verbatim>\<open>x509\<close> parses successfully;
  \<^item> \<open>pdns_New\<close>: \<^verbatim>\<open>pdns.New\<close> applied to the options \<^verbatim>\<open>WithBaseURL\<close>,
    \<^verbatim>\<open>WithAPIKeyAuthentication\<close> and \<^verbatim>\<open>WithHTTPClient\<close>, in this order of arguments.
\<close>

record 'c env =
  ZoneKind_UnmarshalJSON :: "json \<Rightarrow> string + int"
  malformed :: "string \<Rightarrow> bool"
  parsePEM :: "string \<Rightarrow> string list"
  pdns_New :: "string \<Rightarrow> string \<Rightarrow> http_Client \<Rightarrow> 'c option \<times> error option"

text \<open>
  The result of a call of \<^verbatim>\<open>newDSP\<close>: it returns the pair
  \<^verbatim>\<open>(providers.DNSServiceProvider, error)\<close>, or it panics with a run-time error.
\<close>

datatype 'c outcome =
    Panic string
  | Return "'c powerdnsProvider option" "error option"

subsection \<open>\<^verbatim>\<open>json.Unmarshal\<close> onto the provider\<close>

text \<open>
  \<^verbatim>\<open>encoding/json\<close> finds the struct field of a member name by the exact name first and by
  the folded name otherwise. Folding maps every rune to the smallest rune of its simple
  case-folding orbit: an ASCII lower-case letter to its upper-case letter, the Kelvin sign
  (U+212A, the bytes E2 84 AA) to \<^verbatim>\<open>K\<close> and the long s (U+017F, the bytes C5 BF) to \<^verbatim>\<open>S\<close>.
  No other rune folds to an ASCII character, and the names of the fields are ASCII, so
  \<open>foldName\<close> leaves every other byte as it is: the two functions agree on whether a member
  name folds to the folded name of a field.
\<close>

definition upperASCII :: "char \<Rightarrow> char" where
  "upperASCII c =
     (case map_of (zip ''abcdefghijklmnopqrstuvwxyz'' ''ABCDEFGHIJKLMNOPQRSTUVWXYZ'') c of
        None \<Rightarrow> c
      | Some u \<Rightarrow> u)"

fun foldName :: "string \<Rightarrow> string" where
  "foldName [] = []"
| "foldName (c # cs) =
     (if c = CHR 0xE2 \<and> take 2 cs = [CHR 0x84, CHR 0xAA] then CHR ''K'' # foldName (drop 2 cs)
      else if c = CHR 0xC5 \<and> take 1 cs = [CHR 0xBF] then CHR ''S'' # foldName (drop 1 cs)
      else upperASCII c # foldName cs)"

text \<open>
  The fields of \<^verbatim>\<open>powerdnsProvider\<close> that \<^verbatim>\<open>encoding/json\<close> sees, with their JSON names:
  the exported ones, under the name of the tag or, without a tag, under the name of the
  field. \<^verbatim>\<open>client\<close> and \<^verbatim>\<open>nameservers\<close> are unexported and are not in the table.
\<close>

datatype field =
    F_APIKey
  | F_APIUrl
  | F_ServerName
  | F_DefaultNS
  | F_DNSSecOnCreate
  | F_ZoneKind
  | F_SOAEditAPI

definition jsonFields :: "(string \<times> field) list" where
  "jsonFields =
     [(''APIKey'', F_APIKey),
      (''APIUrl'', F_APIUrl),
      (''ServerName'', F_ServerName),
      (''default_ns'', F_DefaultNS),
      (''dnssec_on_create'', F_DNSSecOnCreate),
      (''zone_kind'', F_ZoneKind),
      (''soa_edit_api'', F_SOAEditAPI)]"

definition findField :: "string \<Rightarrow> field option" where
  "findField key =
     (case map_of jsonFields key of
        Some f \<Rightarrow> Some f
      | None \<Rightarrow> map_of (map (\<lambda>(n, f). (foldName n, f)) jsonFields) (foldName key))"

text \<open>
  Decoding a JSON value into a \<^verbatim>\<open>string\<close> or a \<^verbatim>\<open>bool\<close>: the matching literal is stored,
  \<^verbatim>\<open>null\<close> leaves the old value, and every other value leaves the old value and gives an
  \<^verbatim>\<open>*UnmarshalTypeError\<close>, which the decoder saves before it goes on.
\<close>

fun decodeString :: "json \<Rightarrow> string \<Rightarrow> string \<times> error option" where
  "decodeString (JString s) old = (s, None)"
| "decodeString JNull old = (old, None)"
| "decodeString v old = (old, Some (UnmarshalTypeError (valueKind v) ''string''))"

fun decodeBool :: "json \<Rightarrow> bool \<Rightarrow> bool \<times> error option" where
  "decodeBool (JBool b) old = (b, None)"
| "decodeBool JNull old = (old, None)"
| "decodeBool v old = (old, Some (UnmarshalTypeError (valueKind v) ''bool''))"

text \<open>\<^verbatim>\<open>saveError\<close>: the decoder keeps the first error it saved.\<close>

definition saveError :: "error option \<Rightarrow> error option \<Rightarrow> error option" where
  "saveError saved e = (case saved of None \<Rightarrow> e | Some x \<Rightarrow> Some x)"

text \<open>
  Decoding a JSON array into a \<^verbatim>\<open>[]string\<close>: element \<open>i\<close> of the array is decoded into
  element \<open>i\<close> of the slice's backing array, which holds an older string where a decoded
  array has been before (for a member name that occurs twice) and the empty string
  otherwise; then the slice is cut to the length of the array, and an empty array gives a
  new empty slice. \<^verbatim>\<open>null\<close> gives the nil slice. \<open>buf\<close> is the backing array as far as it
  has been written.
\<close>

fun decodeElems :: "json list \<Rightarrow> string list \<Rightarrow> string list \<times> error option" where
  "decodeElems [] buf = ([], None)"
| "decodeElems (v # vs) buf =
     (let (s, e) = decodeString v (case buf of [] \<Rightarrow> [] | b # _ \<Rightarrow> b);
          (ss, es) = decodeElems vs (tl buf)
      in (s # ss, saveError e es))"

fun decodeSlice :: "json \<Rightarrow> string list \<Rightarrow> string list \<Rightarrow> (string list \<times> string list) \<times> error option" where
  "decodeSlice (JArray vs) live spare =
     (if vs = [] then (([], []), None)
      else let (ss, e) = decodeElems vs (live @ spare)
           in ((ss, drop (length vs) (live @ spare)), e))"
| "decodeSlice JNull live spare = (([], []), None)"
| "decodeSlice v live spare = ((live, spare), Some (UnmarshalTypeError (valueKind v) ''[]string''))"

text \<open>
  The state of the decoder while it walks the members of the object: the struct it writes,
  the part of the backing array of \<^verbatim>\<open>DefaultNS\<close> behind the slice, and the saved error.
\<close>

record 'c decodeState =
  target :: "'c powerdnsProvider"
  spare :: "string list"
  savedError :: "error option"

text \<open>
  One member of the object. A name that finds no field is skipped. The error of
  \<^verbatim>\<open>ZoneKind\<close>'s own \<^verbatim>\<open>UnmarshalJSON\<close> is not saved: it ends the decoding (\<open>Inl\<close>).
\<close>

definition decodeMember :: "'c env \<Rightarrow> string \<times> json \<Rightarrow> 'c decodeState \<Rightarrow> error + 'c decodeState" where
  "decodeMember E kv d =
     (let p = target d; v = snd kv in
      case findField (fst kv) of
        None \<Rightarrow> Inr d
      | Some F_APIKey \<Rightarrow>
          (let (s, e) = decodeString v (APIKey p)
           in Inr (d\<lparr>target := p\<lparr>APIKey := s\<rparr>, savedError := saveError (savedError d) e\<rparr>))
      | Some F_APIUrl \<Rightarrow>
          (let (s, e) = decodeString v (APIUrl p)
           in Inr (d\<lparr>target := p\<lparr>APIUrl := s\<rparr>, savedError := saveError (savedError d) e\<rparr>))
      | Some F_ServerName \<Rightarrow>
          (let (s, e) = decodeString v (ServerName p)
           in Inr (d\<lparr>target := p\<lparr>ServerName := s\<rparr>, savedError := saveError (savedError d) e\<rparr>))
      | Some F_DefaultNS \<Rightarrow>
          (let ((ss, sp), e) = decodeSlice v (DefaultNS p) (spare d)
           in Inr (d\<lparr>target := p\<lparr>DefaultNS := ss\<rparr>, spare := sp,
                     savedError := saveError (savedError d) e\<rparr>))
      | Some F_DNSSecOnCreate \<Rightarrow>
          (let (b, e) = decodeBool v (DNSSecOnCreate p)
           in Inr (d\<lparr>target := p\<lparr>DNSSecOnCreate := b\<rparr>, savedError := saveError (savedError d) e\<rparr>))
      | Some F_ZoneKind \<Rightarrow>
          (case ZoneKind_UnmarshalJSON E v of
             Inl msg \<Rightarrow> Inl (LibraryError msg)
           | Inr k \<Rightarrow> Inr (d\<lparr>target := p\<lparr>ZoneKind := k\<rparr>\<rparr>))
      | Some F_SOAEditAPI \<Rightarrow>
          (let (s, e) = decodeString v (SOAEditAPI p)
           in Inr (d\<lparr>target := p\<lparr>SOAEditAPI := s\<rparr>, savedError := saveError (savedError d) e\<rparr>)))"

fun decodeObject :: "'c env \<Rightarrow> (string \<times> json) list \<Rightarrow> 'c decodeState \<Rightarrow> error + 'c decodeState" where
  "decodeObject E [] d = Inr d"
| "decodeObject E (kv # kvs) d =
     (case decodeMember E kv d of
        Inl e \<Rightarrow> Inl e
      | Inr d' \<Rightarrow> decodeObject E kvs d')"

text \<open>
  \<^verbatim>\<open>json.Unmarshal(metadata, dsp)\<close> with \<^verbatim>\<open>dsp\<close> a pointer to the struct: the error, or the
  struct as the decoder leaves it. Bytes that are not JSON give a \<^verbatim>\<open>*SyntaxError\<close>;
  \<^verbatim>\<open>null\<close> changes nothing; an object is decoded member by member and the saved error, if
  there is one, is returned at the end; any other value is an \<^verbatim>\<open>*UnmarshalTypeError\<close>.
\<close>

definition json_Unmarshal :: "'c env \<Rightarrow> RawMessage \<Rightarrow> 'c powerdnsProvider \<Rightarrow> error + 'c powerdnsProvider" where
  "json_Unmarshal E raw p =
     (case raw of
        RawEmpty \<Rightarrow> Inl SyntaxError
      | RawInvalid \<Rightarrow> Inl SyntaxError
      | RawValue JNull \<Rightarrow> Inr p
      | RawValue (JObject kvs) \<Rightarrow>
          (case decodeObject E kvs \<lparr>target = p, spare = [], savedError = None\<rparr> of
             Inl e \<Rightarrow> Inl e
           | Inr d \<Rightarrow> (case savedError d of Some e \<Rightarrow> Inl e | None \<Rightarrow> Inr (target d)))
      | RawValue v \<Rightarrow> Inl (UnmarshalTypeError (valueKind v) ''powerdns.powerdnsProvider''))"

subsection \<open>\<^verbatim>\<open>strconv.ParseBool\<close>\<close>

text \<open>
  Go's \<^verbatim>\<open>strconv.ParseBool\<close> accepts twelve spellings; for any other string it returns
  \<^verbatim>\<open>false\<close> and a \<^verbatim>\<open>*NumError\<close> with \<^verbatim>\<open>ErrSyntax\<close>.
\<close>

definition ParseBool :: "string \<Rightarrow> bool \<times> error option" where
  "ParseBool str =
     (if str \<in> set [''1'', ''t'', ''T'', ''TRUE'', ''true'', ''True''] then (True, None)
      else if str \<in> set [''0'', ''f'', ''F'', ''FALSE'', ''false'', ''False''] then (False, None)
      else (False, Some (NumError ''ParseBool'' str ''invalid syntax'')))"

subsection \<open>The nameserver-model constructor\<close>

text \<open>
  Modelled from the spec: \<^verbatim>\<open>models.ToNameservers\<close>, a function of this repository that is
  not under \<^verbatim>\<open>src/\<close>. The spec calls it the engine's nameserver-model constructor: the
  entries are "wrapped into the engine's nameserver representation", and the constructor
  "itself may reject malformed entries (invalid hostname)", which is "a construction error".
  Which entries are malformed the spec leaves open: the parameter \<open>malformed\<close> says it. A
  rejection returns no list.
\<close>

definition ToNameservers :: "'c env \<Rightarrow> string list \<Rightarrow> Nameserver list \<times> error option" where
  "ToNameservers E nss =
     (case find (malformed E) nss of
        Some ns \<Rightarrow> ([], Some (InvalidNameserverEntry ns))
      | None \<Rightarrow> (map Nameserver nss, None))"

subsection \<open>\<^verbatim>\<open>newDSP\<close>\<close>

text \<open>Reading a Go map: a missing key reads as the zero value, the empty string.\<close>

definition index :: "(string \<rightharpoonup> string) \<Rightarrow> string \<Rightarrow> string" where
  "index m k = (case m k of None \<Rightarrow> [] | Some v \<Rightarrow> v)"

text \<open>
  Lines 90-93, the loop over \<^verbatim>\<open>dsp.DefaultNS\<close> that appends \<^verbatim>\<open>ns[0:len(ns)-1]\<close> to
  \<^verbatim>\<open>nss\<close>. For an empty \<^verbatim>\<open>ns\<close> the upper bound is \<open>-1\<close> and the slice expression panics
  (\<open>Inl\<close>, with the message of the run-time error).
\<close>

fun stripLoop :: "string list \<Rightarrow> string list \<Rightarrow> string + string list" where
  "stripLoop nss [] = Inr nss"
| "stripLoop nss (ns # rest) =
     (if int (length ns) - 1 < 0 then Inl ''runtime error: slice bounds out of range [:-1]''
      else stripLoop (nss @ [take (nat (int (length ns) - 1)) ns]) rest)"

text \<open>
  Lines 66-81: the required fields, each read into \<^verbatim>\<open>dsp\<close> and checked before the next
  one is read. \<open>Inl\<close> is the error with which \<^verbatim>\<open>newDSP\<close> returns \<^verbatim>\<open>nil\<close>.
\<close>

definition requiredFields :: "(string \<rightharpoonup> string) \<Rightarrow> error + 'c powerdnsProvider" where
  "requiredFields m =
     (let dsp = zeroProvider\<lparr>APIKey := index m ''apiKey''\<rparr> in
      if APIKey dsp = [] then Inl (Errorf ''PowerDNS API Key is required'')
      else
      let dsp = dsp\<lparr>APIUrl := index m ''apiUrl''\<rparr> in
      if APIUrl dsp = [] then Inl (Errorf ''PowerDNS API URL is required'')
      else
      let dsp = dsp\<lparr>ServerName := index m ''serverName''\<rparr> in
      if ServerName dsp = [] then Inl (Errorf ''PowerDNS server name is required'')
      else Inr dsp)"

text \<open>
  Lines 84-89: metadata of length zero is not decoded; any other is decoded onto \<^verbatim>\<open>dsp\<close>.
\<close>

definition loadMetadata :: "'c env \<Rightarrow> RawMessage \<Rightarrow> 'c powerdnsProvider \<Rightarrow> error + 'c powerdnsProvider" where
  "loadMetadata E metadata dsp =
     (if metadata \<noteq> RawEmpty then json_Unmarshal E metadata dsp else Inr dsp)"

text \<open>
  Lines 90-98: the nameservers. \<open>Inl\<close> is a result with which \<^verbatim>\<open>newDSP\<close> ends here: the
  panic of the loop, or the return of \<^verbatim>\<open>dsp\<close> with the error of \<^verbatim>\<open>ToNameservers\<close>.
\<close>

definition setNameservers :: "'c env \<Rightarrow> 'c powerdnsProvider \<Rightarrow> 'c outcome + 'c powerdnsProvider" where
  "setNameservers E dsp =
     (case stripLoop [] (DefaultNS dsp) of
        Inl msg \<Rightarrow> Inl (Panic msg)
      | Inr nss \<Rightarrow>
          (case ToNameservers E nss of
             (ns, err) \<Rightarrow>
               (let dsp = dsp\<lparr>nameservers := ns\<rparr> in
                case err of
                  Some e \<Rightarrow> Inl (Return (Some dsp) (Some e))
                | None \<Rightarrow> Inr dsp)))"

text \<open>
  Lines 66-98 together. \<open>Inl\<close> is a result with which \<^verbatim>\<open>newDSP\<close> ends before line 100;
  \<open>Inr\<close> is \<^verbatim>\<open>dsp\<close> when line 100 is reached.
\<close>

definition configure :: "'c env \<Rightarrow> (string \<rightharpoonup> string) \<Rightarrow> RawMessage \<Rightarrow> 'c outcome + 'c powerdnsProvider" where
  "configure E m metadata =
     (case requiredFields m of
        Inl err \<Rightarrow> Inl (Return None (Some err))
      | Inr dsp \<Rightarrow>
          (case loadMetadata E metadata dsp of
             Inl err \<Rightarrow> Inl (Return None (Some err))
           | Inr dsp \<Rightarrow> setNameservers E dsp))"

text \<open>
  Lines 102-111: the key \<^verbatim>\<open>skipTLSVerify\<close>. The flag is assigned before the error is
  looked at, and the client is a local variable that is lost with an error return.
\<close>

definition newTransport :: http_Transport where
  "newTransport = \<lparr>TLSClientConfig = \<lparr>InsecureSkipVerify = False, RootCAs = None\<rparr>\<rparr>"

definition ensureTransport :: "http_Client \<Rightarrow> http_Transport" where
  "ensureTransport c = (case Transport c of None \<Rightarrow> newTransport | Some t \<Rightarrow> t)"

definition skipTLSVerifyStep :: "(string \<rightharpoonup> string) \<Rightarrow> http_Client \<Rightarrow> error + http_Client" where
  "skipTLSVerifyStep m c =
     (case m ''skipTLSVerify'' of
        None \<Rightarrow> Inr c
      | Some _ \<Rightarrow>
          (let t = ensureTransport c;
               (b, err) = ParseBool (index m ''skipTLSVerify'');
               c = c\<lparr>Transport := Some (t\<lparr>TLSClientConfig := (TLSClientConfig t)\<lparr>InsecureSkipVerify := b\<rparr>\<rparr>)\<rparr>
           in case err of Some e \<Rightarrow> Inl e | None \<Rightarrow> Inr c))"

text \<open>
  Lines 113-125: the key \<^verbatim>\<open>cert\<close>. \<^verbatim>\<open>AppendCertsFromPEM\<close> adds to the new, empty pool the
  certificates that parse, and reports whether there was one.
\<close>

definition certStep :: "'c env \<Rightarrow> (string \<rightharpoonup> string) \<Rightarrow> http_Client \<Rightarrow> error + http_Client" where
  "certStep E m c =
     (case m ''cert'' of
        None \<Rightarrow> Inr c
      | Some _ \<Rightarrow>
          (let t = ensureTransport c;
               roots = set (parsePEM E (index m ''cert''));
               ok = (parsePEM E (index m ''cert'') \<noteq> [])
           in if \<not> ok then Inl (Errorf ''unable to parse given certificate'')
              else Inr (c\<lparr>Transport := Some (t\<lparr>TLSClientConfig := (TLSClientConfig t)\<lparr>RootCAs := Some roots\<rparr>\<rparr>)\<rparr>)))"

text \<open>Lines 100-125: the HTTP client, from \<^verbatim>\<open>&http.Client{}\<close>, or the error of a step.\<close>

definition httpClient :: "'c env \<Rightarrow> (string \<rightharpoonup> string) \<Rightarrow> error + http_Client" where
  "httpClient E m =
     (case skipTLSVerifyStep m \<lparr>Transport = None\<rparr> of
        Inl e \<Rightarrow> Inl e
      | Inr c \<Rightarrow> certStep E m c)"

text \<open>
  \<^verbatim>\<open>newDSP\<close> (lines 65-134). After line 98 every return hands out \<^verbatim>\<open>dsp\<close>; the last one
  returns whatever error \<^verbatim>\<open>pdns.New\<close> gave, \<^verbatim>\<open>nil\<close> or not.
\<close>

definition newDSP :: "'c env \<Rightarrow> (string \<rightharpoonup> string) \<Rightarrow> RawMessage \<Rightarrow> 'c outcome" where
  "newDSP E m metadata =
     (case configure E m metadata of
        Inl out \<Rightarrow> out
      | Inr dsp \<Rightarrow>
          (case httpClient E m of
             Inl err \<Rightarrow> Return (Some dsp) (Some err)
           | Inr c \<Rightarrow>
               (case pdns_New E (APIUrl dsp) (APIKey dsp) c of
                  (cl, clientErr) \<Rightarrow> Return (Some (dsp\<lparr>client := cl\<rparr>)) clientErr)))"

subsection \<open>The capability declaration and the registration\<close>

text \<open>
  The capabilities that the file names, from the enumeration of
  \<^verbatim>\<open>providers/capabilities.go\<close> (not under \<^verbatim>\<open>src/\<close>); \<open>OtherCapability\<close> stands for the
  members of the enumeration that this provider does not list.
\<close>

datatype Capability =
    CanAutoDNSSEC
  | CanGetZones
  | CanConcur
  | CanUseAlias
  | CanUseCAA
  | CanUseDS
  | CanUseDHCID
  | CanUseLOC
  | CanUseNAPTR
  | CanUsePTR
  | CanUseSRV
  | CanUseSSHFP
  | CanUseTLSA
  | DocCreateDomains
  | DocDualHost
  | DocOfficiallySupported
  | OtherCapability nat

text \<open>
  Modelled from the spec: the results of \<^verbatim>\<open>providers.Can\<close>, \<^verbatim>\<open>providers.Cannot\<close> and
  \<^verbatim>\<open>providers.Unimplemented\<close>, functions of this repository that are not under \<^verbatim>\<open>src/\<close>.
  The spec's support descriptor is "one of {Supported, Unsupported,
  Supported-with-caveat(note, reference-link), Unimplemented(note, reference-link)}": a
  descriptor is the function that made it, with the strings it was given.
\<close>

datatype DocumentationNote =
    Can "string list"
  | Cannot "string list"
  | Unimplemented "string list"

text \<open>The map literal \<^verbatim>\<open>features\<close> (lines 18-37).\<close>

definition features :: "Capability \<rightharpoonup> DocumentationNote" where
  "features = map_of
     [(CanAutoDNSSEC, Can []),
      (CanGetZones, Can []),
      (CanConcur, Cannot []),
      (CanUseAlias, Can [''Needs to be enabled in PowerDNS first'',
         ''https://doc.powerdns.com/authoritative/guides/alias.html'']),
      (CanUseCAA, Can []),
      (CanUseDS, Can []),
      (CanUseDHCID, Can []),
      (CanUseLOC, Unimplemented
        [''Normalization within the PowerDNS API seems to be buggy, so disabled'',
         ''https://github.com/PowerDNS/pdns/issues/10558'']),
      (CanUseNAPTR, Can []),
      (CanUsePTR, Can []),
      (CanUseSRV, Can []),
      (CanUseSSHFP, Can []),
      (CanUseTLSA, Can []),
      (DocCreateDomains, Can []),
      (DocDualHost, Can []),
      (DocOfficiallySupported, Cannot [])]"

text \<open>
  Modelled from the spec: the registry of \<^verbatim>\<open>package providers\<close> with
  \<^verbatim>\<open>RegisterDomainServiceProviderType\<close> and \<^verbatim>\<open>RegisterMaintainer\<close>, code of this repository
  that is not under \<^verbatim>\<open>src/\<close>. The spec: a "process-wide registry keyed by provider-type
  name that associates a human identifier, a maintainer contact, a capability declaration,
  and a constructor function"; the type name "must be unique within the process;
  re-registration under the same name is a fatal configuration error". The fatal error is
  \<open>Inl\<close> with the name.
\<close>

record ('i, 'a) DspFuncs =
  Initializer :: 'i
  RecordAuditor :: 'a

record ('i, 'a) registry =
  DNSProviderTypes :: "string \<rightharpoonup> ('i, 'a) DspFuncs"
  Notes :: "string \<rightharpoonup> (Capability \<rightharpoonup> DocumentationNote)"
  Maintainers :: "string \<rightharpoonup> string"

definition RegisterDomainServiceProviderType ::
  "string \<Rightarrow> ('i, 'a) DspFuncs \<Rightarrow> (Capability \<rightharpoonup> DocumentationNote) \<Rightarrow> ('i, 'a) registry
     \<Rightarrow> string + ('i, 'a) registry" where
  "RegisterDomainServiceProviderType name fns pm reg =
     (if DNSProviderTypes reg name \<noteq> None then Inl name
      else Inr (reg\<lparr>DNSProviderTypes := (DNSProviderTypes reg)(name \<mapsto> fns),
                    Notes := (Notes reg)(name \<mapsto> pm)\<rparr>))"

definition RegisterMaintainer :: "string \<Rightarrow> string \<Rightarrow> ('i, 'a) registry \<Rightarrow> ('i, 'a) registry" where
  "RegisterMaintainer name maintainer reg = reg\<lparr>Maintainers := (Maintainers reg)(name \<mapsto> maintainer)\<rparr>"

text \<open>
  \<^verbatim>\<open>init\<close> (lines 39-48), on the registry as state. \<^verbatim>\<open>AuditRecords\<close> is defined in another
  file of the package and is a parameter.
\<close>

definition init ::
  "'a \<Rightarrow> 'c env \<Rightarrow> ((string \<rightharpoonup> string) \<Rightarrow> RawMessage \<Rightarrow> 'c outcome, 'a) registry
     \<Rightarrow> string + ((string \<rightharpoonup> string) \<Rightarrow> RawMessage \<Rightarrow> 'c outcome, 'a) registry" where
  "init AuditRecords E reg =
     (let providerName = ''POWERDNS'';
          providerMaintainer = ''@jpbede'';
          fns = \<lparr>Initializer = newDSP E, RecordAuditor = AuditRecords\<rparr>
      in case RegisterDomainServiceProviderType providerName fns features reg of
           Inl fatal \<Rightarrow> Inl fatal
         | Inr reg \<Rightarrow> Inr (RegisterMaintainer providerName providerMaintainer reg))"

subsection \<open>An environment for the examples\<close>

text \<open>
  Stand-ins for the libraries, to run the constructor on concrete inputs: the zone kinds
  \<^verbatim>\<open>"Native"\<close>, \<^verbatim>\<open>"Master"\<close> and \<^verbatim>\<open>"Slave"\<close>; a nameserver entry is malformed when it
  ends in a dot; a PEM text is one certificate when it starts with the certificate header;
  the client is its base URL, and a base URL that does not start with \<^verbatim>\<open>http\<close> is refused.
\<close>

definition exampleEnv :: "string env" where
  "exampleEnv =
     \<lparr>ZoneKind_UnmarshalJSON =
        (\<lambda>v. if v = JString ''Native'' then Inr 1
              else if v = JString ''Master'' then Inr 2
              else if v = JString ''Slave'' then Inr 3
              else Inl ''unsupported zone kind''),
      malformed = (\<lambda>ns. ns \<noteq> [] \<and> last ns = CHR ''.''),
      parsePEM = (\<lambda>pem. if take 27 pem = ''-----BEGIN CERTIFICATE-----'' then [pem] else []),
      pdns_New =
        (\<lambda>url key c. if take 4 url = ''http'' then (Some url, None)
                      else (None, Some (LibraryError ''invalid base URL'')))\<rparr>"

definition exampleConfig :: "string \<rightharpoonup> string" where
  "exampleConfig =
     [''apiKey'' \<mapsto> ''k'', ''apiUrl'' \<mapsto> ''https://pdns.example/api'', ''serverName'' \<mapsto> ''localhost'']"

definition exampleMetadata :: RawMessage where
  "exampleMetadata =
     RawValue (JObject [(''default_ns'', JArray [JString ''ns1.example.com.'', JString ''ns2.example.com.''])])"

definition exampleProvider :: "string powerdnsProvider" where
  "exampleProvider =
     \<lparr>client = Some ''https://pdns.example/api'', APIKey = ''k'',
      APIUrl = ''https://pdns.example/api'', ServerName = ''localhost'',
      DefaultNS = [''ns1.example.com.'', ''ns2.example.com.''],
      DNSSecOnCreate = False, ZoneKind = 0, SOAEditAPI = [],
      nameservers = [Nameserver ''ns1.example.com'', Nameserver ''ns2.example.com'']\<rparr>"


text \<open>The registry before any provider is registered.\<close>

definition emptyRegistry :: "('i, 'a) registry" where
  "emptyRegistry = \<lparr>DNSProviderTypes = Map.empty, Notes = Map.empty, Maintainers = Map.empty\<rparr>"

subsection \<open>Notions of the properties\<close>


text \<open>The member names of a metadata document that is a JSON object, in their order.\<close>

definition memberNames :: "RawMessage \<Rightarrow> string list" where
  "memberNames raw = (case raw of RawValue (JObject kvs) \<Rightarrow> map fst kvs | _ \<Rightarrow> [])"

section \<open>Properties\<close>

subsection \<open>The steps of the constructor\<close>

lemma index_empty: "index m k = [] \<longleftrightarrow> m k = None \<or> m k = Some []"
  by (simp add: index_def split: option.splits)

lemma requiredFields_Inr:
  "requiredFields m = Inr dsp \<longleftrightarrow>
     index m ''apiKey'' \<noteq> [] \<and> index m ''apiUrl'' \<noteq> [] \<and> index m ''serverName'' \<noteq> [] \<and>
     dsp = zeroProvider\<lparr>APIKey := index m ''apiKey'', APIUrl := index m ''apiUrl'',
                         ServerName := index m ''serverName''\<rparr>"
  by (auto simp: requiredFields_def Let_def)

lemma stripLoop_eq:
  "stripLoop acc ds =
     (if [] \<in> set ds then Inl ''runtime error: slice bounds out of range [:-1]''
      else Inr (acc @ map butlast ds))"
proof (induction ds arbitrary: acc)
  case Nil
  show ?case by simp
next
  case (Cons ns rest)
  have "nat (int (length ns) - 1) = length ns - 1" by simp
  then have "take (nat (int (length ns) - 1)) ns = butlast ns"
    by (simp add: butlast_conv_take)
  with Cons show ?case by auto
qed









lemma skipTLSVerifyStep_absent: "m ''skipTLSVerify'' = None \<Longrightarrow> skipTLSVerifyStep m c = Inr c"
  by (simp add: skipTLSVerifyStep_def)


lemma certStep_absent: "m ''cert'' = None \<Longrightarrow> certStep E m c = Inr c"
  by (simp add: certStep_def)


lemma skipTLSVerifyStep_Inr:
  "skipTLSVerifyStep m \<lparr>Transport = None\<rparr> = Inr c \<Longrightarrow>
     (Transport c = None \<longleftrightarrow> m ''skipTLSVerify'' = None) \<and>
     (\<forall>t. Transport c = Some t \<longrightarrow> RootCAs (TLSClientConfig t) = None)"
  by (auto simp: skipTLSVerifyStep_def ensureTransport_def newTransport_def Let_def
      split: option.splits prod.splits)




lemma example_requiredFields:
  "requiredFields exampleConfig = Inr (exampleProvider\<lparr>client := None, DefaultNS := [], nameservers := []\<rparr>)"
  by (simp add: requiredFields_def exampleConfig_def exampleProvider_def zeroProvider_def
      index_def Let_def)

subsection \<open>The decoder of the metadata\<close>

lemma foldedFields:
  "map (\<lambda>(n, f). (foldName n, f)) jsonFields =
     [(''APIKEY'', F_APIKey), (''APIURL'', F_APIUrl), (''SERVERNAME'', F_ServerName),
      (''DEFAULT_NS'', F_DefaultNS), (''DNSSEC_ON_CREATE'', F_DNSSecOnCreate),
      (''ZONE_KIND'', F_ZoneKind), (''SOA_EDIT_API'', F_SOAEditAPI)]"
  by code_simp

lemma findField_cases:
  assumes "findField k = Some f"
  shows "(foldName k, f) \<in> set (map (\<lambda>(n, f). (foldName n, f)) jsonFields)"
proof (cases "map_of jsonFields k")
  case None
  with assms have "map_of (map (\<lambda>(n, f). (foldName n, f)) jsonFields) (foldName k) = Some f"
    by (simp add: findField_def)
  then show ?thesis by (rule map_of_SomeD)
next
  case (Some g)
  with assms have "g = f" by (simp add: findField_def)
  with Some have "(k, f) \<in> set jsonFields" by (simp add: map_of_SomeD)
  then have "(\<lambda>(n, f). (foldName n, f)) (k, f) \<in> (\<lambda>(n, f). (foldName n, f)) ` set jsonFields"
    by (rule imageI)
  then show ?thesis by simp
qed

lemma findField_fold:
  "findField k = Some F_APIKey \<Longrightarrow> foldName k = ''APIKEY''"
  "findField k = Some F_APIUrl \<Longrightarrow> foldName k = ''APIURL''"
  "findField k = Some F_ServerName \<Longrightarrow> foldName k = ''SERVERNAME''"
  by (drule findField_cases, simp add: foldedFields)+

lemma decodeMember_frame:
  assumes "decodeMember E kv d = Inr d'"
  shows "client (target d') = client (target d) \<and> nameservers (target d') = nameservers (target d) \<and>
     (foldName (fst kv) \<noteq> ''APIKEY'' \<longrightarrow> APIKey (target d') = APIKey (target d)) \<and>
     (foldName (fst kv) \<noteq> ''APIURL'' \<longrightarrow> APIUrl (target d') = APIUrl (target d)) \<and>
     (foldName (fst kv) \<noteq> ''SERVERNAME'' \<longrightarrow> ServerName (target d') = ServerName (target d))"
proof (cases "findField (fst kv)")
  case None
  with assms show ?thesis by (simp add: decodeMember_def Let_def)
next
  case (Some f)
  show ?thesis
  proof (cases f)
    case F_APIKey
    with Some assms findField_fold(1) [of "fst kv"] show ?thesis
      by (auto simp: decodeMember_def Let_def split: prod.splits)
  next
    case F_APIUrl
    with Some assms findField_fold(2) [of "fst kv"] show ?thesis
      by (auto simp: decodeMember_def Let_def split: prod.splits)
  next
    case F_ServerName
    with Some assms findField_fold(3) [of "fst kv"] show ?thesis
      by (auto simp: decodeMember_def Let_def split: prod.splits)
  next
    case F_DefaultNS
    with Some assms show ?thesis
      by (auto simp: decodeMember_def Let_def split: prod.splits)
  next
    case F_DNSSecOnCreate
    with Some assms show ?thesis
      by (auto simp: decodeMember_def Let_def split: prod.splits)
  next
    case F_ZoneKind
    with Some assms show ?thesis
      by (auto simp: decodeMember_def Let_def split: sum.splits)
  next
    case F_SOAEditAPI
    with Some assms show ?thesis
      by (auto simp: decodeMember_def Let_def split: prod.splits)
  qed
qed

lemma decodeObject_frame:
  "decodeObject E kvs d = Inr d' \<Longrightarrow>
     client (target d') = client (target d) \<and> nameservers (target d') = nameservers (target d) \<and>
     ((\<forall>k \<in> set (map fst kvs). foldName k \<noteq> ''APIKEY'') \<longrightarrow> APIKey (target d') = APIKey (target d)) \<and>
     ((\<forall>k \<in> set (map fst kvs). foldName k \<noteq> ''APIURL'') \<longrightarrow> APIUrl (target d') = APIUrl (target d)) \<and>
     ((\<forall>k \<in> set (map fst kvs). foldName k \<noteq> ''SERVERNAME'') \<longrightarrow> ServerName (target d') = ServerName (target d))"
proof (induction kvs arbitrary: d)
  case Nil
  then show ?case by simp
next
  case (Cons kv kvs)
  from Cons.prems obtain d1 where 1: "decodeMember E kv d = Inr d1"
    and 2: "decodeObject E kvs d1 = Inr d'"
    by (auto split: sum.splits)
  from decodeMember_frame [OF 1] Cons.IH [OF 2] show ?case by simp
qed

lemma json_Unmarshal_frame:
  assumes "json_Unmarshal E raw p = Inr p'"
  shows "client p' = client p \<and> nameservers p' = nameservers p \<and>
     ((\<forall>k \<in> set (memberNames raw). foldName k \<noteq> ''APIKEY'') \<longrightarrow> APIKey p' = APIKey p) \<and>
     ((\<forall>k \<in> set (memberNames raw). foldName k \<noteq> ''APIURL'') \<longrightarrow> APIUrl p' = APIUrl p) \<and>
     ((\<forall>k \<in> set (memberNames raw). foldName k \<noteq> ''SERVERNAME'') \<longrightarrow> ServerName p' = ServerName p)"
proof (cases raw)
  case RawEmpty
  with assms show ?thesis by (simp add: json_Unmarshal_def)
next
  case RawInvalid
  with assms show ?thesis by (simp add: json_Unmarshal_def)
next
  case (RawValue v)
  show ?thesis
  proof (cases v)
    case (JObject kvs)
    with RawValue assms obtain d where d: "decodeObject E kvs \<lparr>target = p, spare = [], savedError = None\<rparr> = Inr d"
      and p': "p' = target d"
      by (auto simp: json_Unmarshal_def split: sum.splits option.splits)
    from decodeObject_frame [OF d] p' RawValue JObject show ?thesis
      by (simp add: memberNames_def)
  qed (use RawValue assms in \<open>simp_all add: json_Unmarshal_def\<close>)
qed


lemma loadMetadata_frame:
  assumes "loadMetadata E raw p = Inr p'"
  shows "client p' = client p \<and> nameservers p' = nameservers p \<and>
     ((\<forall>k \<in> set (memberNames raw). foldName k \<noteq> ''APIKEY'') \<longrightarrow> APIKey p' = APIKey p) \<and>
     ((\<forall>k \<in> set (memberNames raw). foldName k \<noteq> ''APIURL'') \<longrightarrow> APIUrl p' = APIUrl p) \<and>
     ((\<forall>k \<in> set (memberNames raw). foldName k \<noteq> ''SERVERNAME'') \<longrightarrow> ServerName p' = ServerName p)"
proof (cases "raw = RawEmpty")
  case True
  with assms show ?thesis by (simp add: loadMetadata_def)
next
  case False
  with assms have "json_Unmarshal E raw p = Inr p'" by (simp add: loadMetadata_def)
  then show ?thesis by (rule json_Unmarshal_frame)
qed

subsection \<open>The required fields\<close>

text \<open>
  C1. When \<^verbatim>\<open>apiKey\<close> is missing or empty, \<^verbatim>\<open>newDSP\<close> returns \<^verbatim>\<open>nil\<close> and the error that
  names the API key; when \<^verbatim>\<open>apiKey\<close> is there and \<^verbatim>\<open>apiUrl\<close> is missing or empty, \<^verbatim>\<open>nil\<close>
  and the error that names the API URL; when both are there and \<^verbatim>\<open>serverName\<close> is missing
  or empty, \<^verbatim>\<open>nil\<close> and the error that names the server name. The result is the same for
  every environment and every metadata: no later step is evaluated.
\<close>

theorem newDSP_required_fields:
  "(m ''apiKey'' = None \<or> m ''apiKey'' = Some [] \<longrightarrow>
      newDSP E m metadata = Return None (Some (Errorf ''PowerDNS API Key is required''))) \<and>
   (index m ''apiKey'' \<noteq> [] \<and> (m ''apiUrl'' = None \<or> m ''apiUrl'' = Some []) \<longrightarrow>
      newDSP E m metadata = Return None (Some (Errorf ''PowerDNS API URL is required''))) \<and>
   (index m ''apiKey'' \<noteq> [] \<and> index m ''apiUrl'' \<noteq> [] \<and>
      (m ''serverName'' = None \<or> m ''serverName'' = Some []) \<longrightarrow>
      newDSP E m metadata = Return None (Some (Errorf ''PowerDNS server name is required'')))"
  unfolding index_empty [symmetric]
  by (simp add: newDSP_def configure_def requiredFields_def Let_def)

theorem newDSP_required_fields_witness:
  "newDSP exampleEnv (exampleConfig(''apiKey'' := None)) RawInvalid
     = Return None (Some (Errorf ''PowerDNS API Key is required'')) \<and>
   newDSP exampleEnv (exampleConfig(''apiUrl'' \<mapsto> [])) RawInvalid
     = Return None (Some (Errorf ''PowerDNS API URL is required'')) \<and>
   newDSP exampleEnv (exampleConfig(''serverName'' := None)) RawInvalid
     = Return None (Some (Errorf ''PowerDNS server name is required''))"
  using newDSP_required_fields [of "exampleConfig(''apiKey'' := None)" exampleEnv RawInvalid]
    newDSP_required_fields [of "exampleConfig(''apiUrl'' \<mapsto> [])" exampleEnv RawInvalid]
    newDSP_required_fields [of "exampleConfig(''serverName'' := None)" exampleEnv RawInvalid]
  by (simp add: exampleConfig_def index_def)

subsection \<open>The nameservers\<close>



text \<open>
  C3. When the loop over the default-nameserver list completes, the string it hands to the
  nameserver-model constructor for an entry is that entry without its last byte, whatever
  that byte is: the entry is the string followed by its own last byte. The list of these
  strings is the argument of \<^verbatim>\<open>ToNameservers\<close>.
\<close>

theorem stripLoop_removes_last_byte:
  assumes "stripLoop [] (DefaultNS dsp) = Inr nss"
  shows "nss = map butlast (DefaultNS dsp) \<and>
         (\<forall>i < length (DefaultNS dsp). DefaultNS dsp ! i = nss ! i @ [last (DefaultNS dsp ! i)]) \<and>
         setNameservers E dsp =
           (case ToNameservers E nss of
              (ns, None) \<Rightarrow> Inr (dsp\<lparr>nameservers := ns\<rparr>)
            | (ns, Some e) \<Rightarrow> Inl (Return (Some (dsp\<lparr>nameservers := ns\<rparr>)) (Some e)))"
proof -
  from assms have ne: "[] \<notin> set (DefaultNS dsp)" and nss: "nss = map butlast (DefaultNS dsp)"
    by (auto simp: stripLoop_eq split: if_splits)
  have "\<forall>i < length (DefaultNS dsp). DefaultNS dsp ! i = nss ! i @ [last (DefaultNS dsp ! i)]"
  proof (intro allI impI)
    fix i assume i: "i < length (DefaultNS dsp)"
    then have "DefaultNS dsp ! i \<noteq> []" using ne by (metis nth_mem)
    then show "DefaultNS dsp ! i = nss ! i @ [last (DefaultNS dsp ! i)]"
      using i nss by simp
  qed
  moreover have "setNameservers E dsp =
           (case ToNameservers E nss of
              (ns, None) \<Rightarrow> Inr (dsp\<lparr>nameservers := ns\<rparr>)
            | (ns, Some e) \<Rightarrow> Inl (Return (Some (dsp\<lparr>nameservers := ns\<rparr>)) (Some e)))"
    using assms by (simp add: setNameservers_def Let_def split: prod.splits option.splits)
  ultimately show ?thesis using nss by simp
qed

theorem stripLoop_removes_last_byte_witness:
  "stripLoop [] (DefaultNS (exampleProvider\<lparr>DefaultNS := [''ns1.example.com.'', ''ns2x'']\<rparr>))
     = Inr [''ns1.example.com'', ''ns2''] \<and>
   setNameservers exampleEnv (exampleProvider\<lparr>DefaultNS := [''ns1.example.com.'', ''ns2x'']\<rparr>)
     = Inr (exampleProvider\<lparr>DefaultNS := [''ns1.example.com.'', ''ns2x''],
              nameservers := [Nameserver ''ns1.example.com'', Nameserver ''ns2'']\<rparr>)"
proof -
  have h: "stripLoop [] (DefaultNS (exampleProvider\<lparr>DefaultNS := [''ns1.example.com.'', ''ns2x'']\<rparr>))
     = Inr [''ns1.example.com'', ''ns2'']"
    by simp
  show ?thesis
    using stripLoop_removes_last_byte [OF h, of exampleEnv] h
    by (simp add: ToNameservers_def exampleEnv_def)
qed

text \<open>
  C10. Once the required fields are there and the metadata is decoded, \<^verbatim>\<open>newDSP\<close> panics
  with the out-of-range slice expression exactly when an entry of the default-nameserver
  list is empty, and returns when every entry is non-empty; the metadata document
  \<^verbatim>\<open>{"default_ns":[""]}\<close> makes it panic in every environment.
\<close>

theorem newDSP_panics_on_empty_nameserver:
  assumes "requiredFields m = Inr d0"
  shows "(\<forall>d1. loadMetadata E metadata d0 = Inr d1 \<longrightarrow>
            (newDSP E m metadata = Panic ''runtime error: slice bounds out of range [:-1]'')
              = ([] \<in> set (DefaultNS d1)) \<and>
            ([] \<notin> set (DefaultNS d1) \<longrightarrow> (\<exists>p e. newDSP E m metadata = Return p e))) \<and>
         newDSP E m (RawValue (JObject [(''default_ns'', JArray [JString []])]))
           = Panic ''runtime error: slice bounds out of range [:-1]''"
proof -
  have a: "loadMetadata E (RawValue (JObject [(''default_ns'', JArray [JString []])])) d0
             = Inr (d0\<lparr>DefaultNS := [[]]\<rparr>)"
    by (simp add: loadMetadata_def json_Unmarshal_def decodeMember_def findField_def
        jsonFields_def saveError_def Let_def)
  have b: "newDSP E m (RawValue (JObject [(''default_ns'', JArray [JString []])]))
           = Panic ''runtime error: slice bounds out of range [:-1]''"
    using assms a by (simp add: newDSP_def configure_def setNameservers_def)
  have c: "\<forall>d1. loadMetadata E metadata d0 = Inr d1 \<longrightarrow>
            (newDSP E m metadata = Panic ''runtime error: slice bounds out of range [:-1]'')
              = ([] \<in> set (DefaultNS d1)) \<and>
            ([] \<notin> set (DefaultNS d1) \<longrightarrow> (\<exists>p e. newDSP E m metadata = Return p e))"
    using assms
    by (auto simp: newDSP_def configure_def setNameservers_def stripLoop_eq Let_def
        split: sum.splits prod.splits option.splits)
  from b c show ?thesis by simp
qed

theorem newDSP_panics_on_empty_nameserver_witness:
  "requiredFields exampleConfig = Inr (exampleProvider\<lparr>client := None, DefaultNS := [], nameservers := []\<rparr>) \<and>
   loadMetadata exampleEnv (RawValue (JObject [(''default_ns'', JArray [JString ''ns1.example.com.'', JString []])]))
       (exampleProvider\<lparr>client := None, DefaultNS := [], nameservers := []\<rparr>)
     = Inr (exampleProvider\<lparr>client := None, DefaultNS := [''ns1.example.com.'', []], nameservers := []\<rparr>) \<and>
   newDSP exampleEnv exampleConfig (RawValue (JObject [(''default_ns'', JArray [JString ''ns1.example.com.'', JString []])]))
     = Panic ''runtime error: slice bounds out of range [:-1]'' \<and>
   newDSP exampleEnv exampleConfig (RawValue (JObject [(''default_ns'', JArray [JString []])]))
     = Panic ''runtime error: slice bounds out of range [:-1]''"
proof -
  have h: "requiredFields exampleConfig
     = Inr (exampleProvider\<lparr>client := None, DefaultNS := [], nameservers := []\<rparr>)"
    by (simp add: requiredFields_def exampleConfig_def exampleProvider_def zeroProvider_def
        index_def Let_def)
  have l: "loadMetadata exampleEnv (RawValue (JObject [(''default_ns'', JArray [JString ''ns1.example.com.'', JString []])]))
       (exampleProvider\<lparr>client := None, DefaultNS := [], nameservers := []\<rparr>)
     = Inr (exampleProvider\<lparr>client := None, DefaultNS := [''ns1.example.com.'', []], nameservers := []\<rparr>)"
    by (simp add: loadMetadata_def json_Unmarshal_def decodeMember_def findField_def
        jsonFields_def saveError_def Let_def exampleProvider_def)
  show ?thesis
    using newDSP_panics_on_empty_nameserver [OF h, of exampleEnv
        "RawValue (JObject [(''default_ns'', JArray [JString ''ns1.example.com.'', JString []])])"] h l
    by simp
qed


subsection \<open>The metadata\<close>

text \<open>
  C6, as the code has it. \<^verbatim>\<open>json.Unmarshal\<close> writes the exported fields of the struct:
  the four with a tag and, under their own names, \<^verbatim>\<open>APIKey\<close>, \<^verbatim>\<open>APIUrl\<close> and
  \<^verbatim>\<open>ServerName\<close>. So decoding the metadata never changes \<^verbatim>\<open>client\<close> and
  \<^verbatim>\<open>nameservers\<close>, and it leaves the API key, the API URL and the server name as step 1
  validated them when no member name of the document folds to the name of that field.
  When the decoding fails, \<^verbatim>\<open>newDSP\<close> returns \<^verbatim>\<open>nil\<close> and the error of the decoder;
  bytes that are not JSON make it fail.
\<close>

theorem metadata_overlay_frame:
  "(loadMetadata E metadata dsp = Inr dsp' \<longrightarrow>
      client dsp' = client dsp \<and> nameservers dsp' = nameservers dsp \<and>
      ((\<forall>k \<in> set (memberNames metadata). foldName k \<noteq> ''APIKEY'') \<longrightarrow> APIKey dsp' = APIKey dsp) \<and>
      ((\<forall>k \<in> set (memberNames metadata). foldName k \<noteq> ''APIURL'') \<longrightarrow> APIUrl dsp' = APIUrl dsp) \<and>
      ((\<forall>k \<in> set (memberNames metadata). foldName k \<noteq> ''SERVERNAME'') \<longrightarrow>
         ServerName dsp' = ServerName dsp)) \<and>
   (requiredFields m = Inr d0 \<and> loadMetadata E metadata d0 = Inl err \<longrightarrow>
      newDSP E m metadata = Return None (Some err)) \<and>
   loadMetadata E RawInvalid dsp = Inl SyntaxError"
proof -
  have 1: "loadMetadata E metadata dsp = Inr dsp' \<longrightarrow>
      client dsp' = client dsp \<and> nameservers dsp' = nameservers dsp \<and>
      ((\<forall>k \<in> set (memberNames metadata). foldName k \<noteq> ''APIKEY'') \<longrightarrow> APIKey dsp' = APIKey dsp) \<and>
      ((\<forall>k \<in> set (memberNames metadata). foldName k \<noteq> ''APIURL'') \<longrightarrow> APIUrl dsp' = APIUrl dsp) \<and>
      ((\<forall>k \<in> set (memberNames metadata). foldName k \<noteq> ''SERVERNAME'') \<longrightarrow>
         ServerName dsp' = ServerName dsp)"
    using loadMetadata_frame [of E metadata dsp dsp'] by blast
  have 2: "requiredFields m = Inr d0 \<and> loadMetadata E metadata d0 = Inl err \<longrightarrow>
      newDSP E m metadata = Return None (Some err)"
    by (simp add: newDSP_def configure_def)
  have 3: "loadMetadata E RawInvalid dsp = Inl SyntaxError"
    by (simp add: loadMetadata_def json_Unmarshal_def)
  from 1 2 3 show ?thesis by (intro conjI)
qed

theorem metadata_overlay_frame_witness:
  "loadMetadata exampleEnv exampleMetadata (exampleProvider\<lparr>client := None, DefaultNS := [], nameservers := []\<rparr>)
     = Inr (exampleProvider\<lparr>client := None, nameservers := []\<rparr>) \<and>
   map foldName (memberNames exampleMetadata) = [''DEFAULT_NS''] \<and>
   APIKey (exampleProvider\<lparr>client := None, nameservers := []\<rparr>) = ''k'' \<and>
   requiredFields exampleConfig = Inr (exampleProvider\<lparr>client := None, DefaultNS := [], nameservers := []\<rparr>) \<and>
   loadMetadata exampleEnv (RawValue (JObject [(''default_ns'', JString ''ns1.example.com.'')]))
       (exampleProvider\<lparr>client := None, DefaultNS := [], nameservers := []\<rparr>)
     = Inl (UnmarshalTypeError ''string'' ''[]string'') \<and>
   newDSP exampleEnv exampleConfig (RawValue (JObject [(''default_ns'', JString ''ns1.example.com.'')]))
     = Return None (Some (UnmarshalTypeError ''string'' ''[]string'')) \<and>
   newDSP exampleEnv exampleConfig RawInvalid = Return None (Some SyntaxError)"
proof -
  let ?d0 = "exampleProvider\<lparr>client := None, DefaultNS := [], nameservers := []\<rparr>"
  have a: "loadMetadata exampleEnv exampleMetadata ?d0 = Inr (exampleProvider\<lparr>client := None, nameservers := []\<rparr>)"
    by (simp add: loadMetadata_def json_Unmarshal_def decodeMember_def findField_def
        jsonFields_def saveError_def Let_def exampleProvider_def exampleMetadata_def)
  have b: "map foldName (memberNames exampleMetadata) = [''DEFAULT_NS'']"
    by (simp add: memberNames_def exampleMetadata_def upperASCII_def)
  then have b': "\<forall>k \<in> set (memberNames exampleMetadata). foldName k \<noteq> ''APIKEY''"
    by (simp add: memberNames_def exampleMetadata_def)
  have c: "loadMetadata exampleEnv (RawValue (JObject [(''default_ns'', JString ''ns1.example.com.'')])) ?d0
     = Inl (UnmarshalTypeError ''string'' ''[]string'')"
    by (simp add: loadMetadata_def json_Unmarshal_def decodeMember_def findField_def
        jsonFields_def saveError_def Let_def exampleProvider_def)
  have d: "loadMetadata exampleEnv RawInvalid ?d0 = Inl SyntaxError"
    by (simp add: loadMetadata_def json_Unmarshal_def)
  show ?thesis
    using metadata_overlay_frame [of exampleEnv exampleMetadata ?d0
        "exampleProvider\<lparr>client := None, nameservers := []\<rparr>" exampleConfig ?d0 SyntaxError]
      metadata_overlay_frame [of exampleEnv
        "RawValue (JObject [(''default_ns'', JString ''ns1.example.com.'')])" ?d0 ?d0 exampleConfig ?d0
        "UnmarshalTypeError ''string'' ''[]string''"]
      metadata_overlay_frame [of exampleEnv RawInvalid ?d0 ?d0 exampleConfig ?d0 SyntaxError]
      a b b' c d example_requiredFields
    by (simp add: exampleProvider_def)
qed

text \<open>
  C6, as the claim states it, fails: with the metadata document \<^verbatim>\<open>{"APIKey":"other"}\<close>
  the constructor succeeds and the instance holds the key of the document, not the key
  \<^verbatim>\<open>k\<close> of the configuration that step 1 validated.
\<close>

theorem metadata_overrides_APIKey_counterexample:
  "requiredFields exampleConfig
     = Inr (exampleProvider\<lparr>client := None, DefaultNS := [], nameservers := []\<rparr>) \<and>
   APIKey (exampleProvider\<lparr>client := None, DefaultNS := [], nameservers := []\<rparr>) = ''k'' \<and>
   loadMetadata exampleEnv (RawValue (JObject [(''APIKey'', JString ''other'')]))
       (exampleProvider\<lparr>client := None, DefaultNS := [], nameservers := []\<rparr>)
     = Inr (exampleProvider\<lparr>client := None, APIKey := ''other'', DefaultNS := [], nameservers := []\<rparr>) \<and>
   newDSP exampleEnv exampleConfig (RawValue (JObject [(''APIKey'', JString ''other'')]))
     = Return (Some (exampleProvider\<lparr>APIKey := ''other'', DefaultNS := [], nameservers := []\<rparr>)) None"
  by code_simp

subsection \<open>The HTTP client\<close>





text \<open>
  C7. With neither \<^verbatim>\<open>skipTLSVerify\<close> nor \<^verbatim>\<open>cert\<close> in the configuration the HTTP client
  that \<^verbatim>\<open>newDSP\<close> hands to \<^verbatim>\<open>pdns.New\<close> has no transport. The client has a transport
  exactly when one of the two keys is there, and after the first step exactly when
  \<^verbatim>\<open>skipTLSVerify\<close> is there.
\<close>

theorem no_tls_key_no_transport:
  "(m ''skipTLSVerify'' = None \<and> m ''cert'' = None \<longrightarrow>
      httpClient E m = Inr \<lparr>Transport = None\<rparr> \<and>
      (\<forall>dsp. configure E m metadata = Inr dsp \<longrightarrow>
         newDSP E m metadata =
           Return (Some (dsp\<lparr>client := fst (pdns_New E (APIUrl dsp) (APIKey dsp) \<lparr>Transport = None\<rparr>)\<rparr>))
             (snd (pdns_New E (APIUrl dsp) (APIKey dsp) \<lparr>Transport = None\<rparr>)))) \<and>
   (\<forall>hc. httpClient E m = Inr hc \<longrightarrow>
      (Transport hc \<noteq> None) = (m ''skipTLSVerify'' \<noteq> None \<or> m ''cert'' \<noteq> None)) \<and>
   (\<forall>c. skipTLSVerifyStep m \<lparr>Transport = None\<rparr> = Inr c \<longrightarrow>
      (Transport c \<noteq> None) = (m ''skipTLSVerify'' \<noteq> None))"
proof -
  have 1: "httpClient E m = Inr \<lparr>Transport = None\<rparr> \<and>
      (\<forall>dsp. configure E m metadata = Inr dsp \<longrightarrow>
         newDSP E m metadata =
           Return (Some (dsp\<lparr>client := fst (pdns_New E (APIUrl dsp) (APIKey dsp) \<lparr>Transport = None\<rparr>)\<rparr>))
             (snd (pdns_New E (APIUrl dsp) (APIKey dsp) \<lparr>Transport = None\<rparr>)))"
    if "m ''skipTLSVerify'' = None \<and> m ''cert'' = None"
    using that
    by (simp add: httpClient_def skipTLSVerifyStep_absent certStep_absent newDSP_def
        split: prod.splits)
  have 3: "(Transport c \<noteq> None) = (m ''skipTLSVerify'' \<noteq> None)"
    if "skipTLSVerifyStep m \<lparr>Transport = None\<rparr> = Inr c" for c
    using skipTLSVerifyStep_Inr [OF that] by simp
  have 2: "(Transport hc \<noteq> None) = (m ''skipTLSVerify'' \<noteq> None \<or> m ''cert'' \<noteq> None)"
    if h: "httpClient E m = Inr hc" for hc
  proof -
    from h obtain c where s: "skipTLSVerifyStep m \<lparr>Transport = None\<rparr> = Inr c"
      and c: "certStep E m c = Inr hc"
      by (auto simp: httpClient_def split: sum.splits)
    from c have "(Transport hc \<noteq> None) = (Transport c \<noteq> None \<or> m ''cert'' \<noteq> None)"
      by (auto simp: certStep_def Let_def split: option.splits if_splits)
    with 3 [OF s] show ?thesis by simp
  qed
  from 1 2 3 show ?thesis by blast
qed

theorem no_tls_key_no_transport_witness:
  "exampleConfig ''skipTLSVerify'' = None \<and> exampleConfig ''cert'' = None \<and>
   httpClient exampleEnv exampleConfig = Inr \<lparr>Transport = None\<rparr> \<and>
   configure exampleEnv exampleConfig exampleMetadata = Inr (exampleProvider\<lparr>client := None\<rparr>) \<and>
   pdns_New exampleEnv ''https://pdns.example/api'' ''k'' \<lparr>Transport = None\<rparr>
     = (Some ''https://pdns.example/api'', None) \<and>
   newDSP exampleEnv exampleConfig exampleMetadata = Return (Some exampleProvider) None \<and>
   map Name (nameservers exampleProvider) = [''ns1.example.com'', ''ns2.example.com'']"
proof -
  have a: "exampleConfig ''skipTLSVerify'' = None \<and> exampleConfig ''cert'' = None"
    by (simp add: exampleConfig_def)
  have c: "configure exampleEnv exampleConfig exampleMetadata = Inr (exampleProvider\<lparr>client := None\<rparr>)"
    by code_simp
  have p: "pdns_New exampleEnv ''https://pdns.example/api'' ''k'' \<lparr>Transport = None\<rparr>
     = (Some ''https://pdns.example/api'', None)"
    by (simp add: exampleEnv_def)
  show ?thesis
    using no_tls_key_no_transport [of exampleConfig exampleEnv exampleMetadata] a c p
    by (simp add: exampleProvider_def)
qed

subsection \<open>Errors that return the instance\<close>

text \<open>
  C8. When \<^verbatim>\<open>pdns.New\<close> returns an error, \<^verbatim>\<open>newDSP\<close> returns that error together with
  \<^verbatim>\<open>dsp\<close>, not \<^verbatim>\<open>nil\<close>; and when \<^verbatim>\<open>ToNameservers\<close> returns an error, \<^verbatim>\<open>newDSP\<close>
  returns that error together with \<^verbatim>\<open>dsp\<close> as far as it is built.
\<close>

theorem errors_after_metadata_return_instance:
  "(configure E m metadata = Inr dsp \<and> httpClient E m = Inr c \<and>
      pdns_New E (APIUrl dsp) (APIKey dsp) c = (cl, Some e) \<longrightarrow>
        newDSP E m metadata = Return (Some (dsp\<lparr>client := cl\<rparr>)) (Some e)) \<and>
   (requiredFields m = Inr d0 \<and> loadMetadata E metadata d0 = Inr d1 \<and>
      stripLoop [] (DefaultNS d1) = Inr nss \<and> ToNameservers E nss = (ns, Some e') \<longrightarrow>
        newDSP E m metadata = Return (Some (d1\<lparr>nameservers := ns\<rparr>)) (Some e'))"
  by (simp add: newDSP_def configure_def setNameservers_def)

theorem errors_after_metadata_return_instance_witness:
  "configure exampleEnv (exampleConfig(''apiUrl'' \<mapsto> ''pdns.example'')) exampleMetadata
     = Inr (exampleProvider\<lparr>client := None, APIUrl := ''pdns.example''\<rparr>) \<and>
   httpClient exampleEnv (exampleConfig(''apiUrl'' \<mapsto> ''pdns.example'')) = Inr \<lparr>Transport = None\<rparr> \<and>
   pdns_New exampleEnv ''pdns.example'' ''k'' \<lparr>Transport = None\<rparr>
     = (None, Some (LibraryError ''invalid base URL'')) \<and>
   newDSP exampleEnv (exampleConfig(''apiUrl'' \<mapsto> ''pdns.example'')) exampleMetadata
     = Return (Some (exampleProvider\<lparr>client := None, APIUrl := ''pdns.example''\<rparr>))
         (Some (LibraryError ''invalid base URL'')) \<and>
   requiredFields exampleConfig
     = Inr (exampleProvider\<lparr>client := None, DefaultNS := [], nameservers := []\<rparr>) \<and>
   loadMetadata exampleEnv (RawValue (JObject [(''default_ns'', JArray [JString ''ns1.example.com..''])]))
       (exampleProvider\<lparr>client := None, DefaultNS := [], nameservers := []\<rparr>)
     = Inr (exampleProvider\<lparr>client := None, DefaultNS := [''ns1.example.com..''], nameservers := []\<rparr>) \<and>
   stripLoop [] [''ns1.example.com..''] = Inr [''ns1.example.com.''] \<and>
   ToNameservers exampleEnv [''ns1.example.com.'']
     = ([], Some (InvalidNameserverEntry ''ns1.example.com.'')) \<and>
   newDSP exampleEnv exampleConfig (RawValue (JObject [(''default_ns'', JArray [JString ''ns1.example.com..''])]))
     = Return (Some (exampleProvider\<lparr>client := None, DefaultNS := [''ns1.example.com..''], nameservers := []\<rparr>))
         (Some (InvalidNameserverEntry ''ns1.example.com.''))"
proof -
  let ?m = "exampleConfig(''apiUrl'' \<mapsto> ''pdns.example'')"
  let ?md = "RawValue (JObject [(''default_ns'', JArray [JString ''ns1.example.com..''])])"
  let ?d0 = "exampleProvider\<lparr>client := None, DefaultNS := [], nameservers := []\<rparr>"
  let ?d1 = "exampleProvider\<lparr>client := None, DefaultNS := [''ns1.example.com..''], nameservers := []\<rparr>"
  have a: "configure exampleEnv ?m exampleMetadata
     = Inr (exampleProvider\<lparr>client := None, APIUrl := ''pdns.example''\<rparr>)"
    by code_simp
  have b: "httpClient exampleEnv ?m = Inr \<lparr>Transport = None\<rparr>"
    by (simp add: httpClient_def skipTLSVerifyStep_def certStep_def exampleConfig_def)
  have c: "pdns_New exampleEnv ''pdns.example'' ''k'' \<lparr>Transport = None\<rparr>
     = (None, Some (LibraryError ''invalid base URL''))"
    by (simp add: exampleEnv_def)
  have d: "requiredFields exampleConfig = Inr ?d0"
    by (simp add: requiredFields_def exampleConfig_def exampleProvider_def zeroProvider_def
        index_def Let_def)
  have e: "loadMetadata exampleEnv ?md ?d0 = Inr ?d1"
    by (simp add: loadMetadata_def json_Unmarshal_def decodeMember_def findField_def
        jsonFields_def saveError_def Let_def exampleProvider_def)
  have f: "stripLoop [] [''ns1.example.com..''] = Inr [''ns1.example.com.'']"
    by simp
  have g: "ToNameservers exampleEnv [''ns1.example.com.'']
     = ([], Some (InvalidNameserverEntry ''ns1.example.com.''))"
    by (simp add: ToNameservers_def exampleEnv_def)
  show ?thesis
    using errors_after_metadata_return_instance [of exampleEnv ?m exampleMetadata
        "exampleProvider\<lparr>client := None, APIUrl := ''pdns.example''\<rparr>" "\<lparr>Transport = None\<rparr>"
        None "LibraryError ''invalid base URL''" ?d0 ?d0 "[]" "[]" SyntaxError]
      errors_after_metadata_return_instance [of exampleEnv exampleConfig ?md
        ?d1 "\<lparr>Transport = None\<rparr>" None SyntaxError ?d0 ?d1 "[''ns1.example.com.'']" "[]"
        "InvalidNameserverEntry ''ns1.example.com.''"]
      a b c d e f g
    by (simp add: exampleProvider_def)
qed

subsection \<open>The capability declaration\<close>

text \<open>
  C9. \<^verbatim>\<open>features\<close> maps \<^verbatim>\<open>CanConcur\<close> to \<^verbatim>\<open>Cannot()\<close>. \<^verbatim>\<open>init\<close> succeeds exactly when
  the type \<^verbatim>\<open>POWERDNS\<close> is not yet registered, and then registers \<^verbatim>\<open>features\<close>, the
  constructor and the maintainer under \<^verbatim>\<open>POWERDNS\<close>. Afterwards no registration changes
  the declaration registered for \<^verbatim>\<open>POWERDNS\<close>; \<^verbatim>\<open>newDSP\<close> has no access to the registry
  or to \<^verbatim>\<open>features\<close>.
\<close>

theorem features_CanConcur_registered:
  "features CanConcur = Some (Cannot []) \<and>
   (init AuditRecords E reg = Inr reg' \<longrightarrow>
      Notes reg' ''POWERDNS'' = Some features \<and>
      DNSProviderTypes reg' ''POWERDNS'' = Some \<lparr>Initializer = newDSP E, RecordAuditor = AuditRecords\<rparr> \<and>
      Maintainers reg' ''POWERDNS'' = Some ''@jpbede'') \<and>
   (\<exists>r. init AuditRecords E reg = Inr r) = (DNSProviderTypes reg ''POWERDNS'' = None) \<and>
   (DNSProviderTypes reg ''POWERDNS'' \<noteq> None \<and>
      RegisterDomainServiceProviderType name fns pm reg = Inr reg'' \<longrightarrow>
        Notes reg'' ''POWERDNS'' = Notes reg ''POWERDNS'') \<and>
   Notes (RegisterMaintainer name maintainer reg) = Notes reg"
proof -
  have 1: "features CanConcur = Some (Cannot [])"
    by (simp add: features_def)
  have 2: "init AuditRecords E reg = Inr reg' \<longrightarrow>
      Notes reg' ''POWERDNS'' = Some features \<and>
      DNSProviderTypes reg' ''POWERDNS'' = Some \<lparr>Initializer = newDSP E, RecordAuditor = AuditRecords\<rparr> \<and>
      Maintainers reg' ''POWERDNS'' = Some ''@jpbede''"
    by (auto simp: init_def RegisterDomainServiceProviderType_def RegisterMaintainer_def Let_def
        split: if_splits)
  have 3: "(\<exists>r. init AuditRecords E reg = Inr r) = (DNSProviderTypes reg ''POWERDNS'' = None)"
    by (auto simp: init_def RegisterDomainServiceProviderType_def Let_def)
  have 4: "DNSProviderTypes reg ''POWERDNS'' \<noteq> None \<and>
      RegisterDomainServiceProviderType name fns pm reg = Inr reg'' \<longrightarrow>
        Notes reg'' ''POWERDNS'' = Notes reg ''POWERDNS''"
    by (auto simp: RegisterDomainServiceProviderType_def split: if_splits)
  have 5: "Notes (RegisterMaintainer name maintainer reg) = Notes reg"
    by (simp add: RegisterMaintainer_def)
  from 1 2 3 4 5 show ?thesis by (intro conjI)
qed

theorem features_CanConcur_registered_witness:
  "init () exampleEnv emptyRegistry
     = Inr \<lparr>DNSProviderTypes = [''POWERDNS'' \<mapsto> \<lparr>Initializer = newDSP exampleEnv, RecordAuditor = ()\<rparr>],
            Notes = [''POWERDNS'' \<mapsto> features], Maintainers = [''POWERDNS'' \<mapsto> ''@jpbede'']\<rparr> \<and>
   features CanConcur = Some (Cannot []) \<and>
   RegisterDomainServiceProviderType ''BIND'' \<lparr>Initializer = newDSP exampleEnv, RecordAuditor = ()\<rparr> Map.empty
       \<lparr>DNSProviderTypes = [''POWERDNS'' \<mapsto> \<lparr>Initializer = newDSP exampleEnv, RecordAuditor = ()\<rparr>],
        Notes = [''POWERDNS'' \<mapsto> features], Maintainers = [''POWERDNS'' \<mapsto> ''@jpbede'']\<rparr>
     = Inr \<lparr>DNSProviderTypes = [''POWERDNS'' \<mapsto> \<lparr>Initializer = newDSP exampleEnv, RecordAuditor = ()\<rparr>,
               ''BIND'' \<mapsto> \<lparr>Initializer = newDSP exampleEnv, RecordAuditor = ()\<rparr>],
            Notes = [''POWERDNS'' \<mapsto> features, ''BIND'' \<mapsto> Map.empty],
            Maintainers = [''POWERDNS'' \<mapsto> ''@jpbede'']\<rparr> \<and>
   [''POWERDNS'' \<mapsto> features, ''BIND'' \<mapsto> Map.empty] ''POWERDNS'' = Some features"
proof -
  let ?r = "\<lparr>DNSProviderTypes = [''POWERDNS'' \<mapsto> \<lparr>Initializer = newDSP exampleEnv, RecordAuditor = ()\<rparr>],
        Notes = [''POWERDNS'' \<mapsto> features], Maintainers = [''POWERDNS'' \<mapsto> ''@jpbede'']\<rparr>"
  have a: "init () exampleEnv emptyRegistry = Inr ?r"
    by (simp add: init_def RegisterDomainServiceProviderType_def RegisterMaintainer_def
        emptyRegistry_def Let_def)
  have b: "RegisterDomainServiceProviderType ''BIND'' \<lparr>Initializer = newDSP exampleEnv, RecordAuditor = ()\<rparr>
       Map.empty ?r
     = Inr \<lparr>DNSProviderTypes = [''POWERDNS'' \<mapsto> \<lparr>Initializer = newDSP exampleEnv, RecordAuditor = ()\<rparr>,
               ''BIND'' \<mapsto> \<lparr>Initializer = newDSP exampleEnv, RecordAuditor = ()\<rparr>],
            Notes = [''POWERDNS'' \<mapsto> features, ''BIND'' \<mapsto> Map.empty],
            Maintainers = [''POWERDNS'' \<mapsto> ''@jpbede'']\<rparr>"
    by (simp add: RegisterDomainServiceProviderType_def)
  show ?thesis
    using features_CanConcur_registered [where AuditRecords = "()" and E = exampleEnv
          and reg = emptyRegistry and reg' = ?r]
      features_CanConcur_registered [where AuditRecords = "()" and E = exampleEnv and reg = ?r
          and name = "''BIND''" and pm = Map.empty
          and fns = "\<lparr>Initializer = newDSP exampleEnv, RecordAuditor = ()\<rparr>"
          and reg'' = "\<lparr>DNSProviderTypes = [''POWERDNS'' \<mapsto> \<lparr>Initializer = newDSP exampleEnv, RecordAuditor = ()\<rparr>,
               ''BIND'' \<mapsto> \<lparr>Initializer = newDSP exampleEnv, RecordAuditor = ()\<rparr>],
            Notes = [''POWERDNS'' \<mapsto> features, ''BIND'' \<mapsto> Map.empty],
            Maintainers = [''POWERDNS'' \<mapsto> ''@jpbede'']\<rparr>"]
      a b
    by simp
qed

end
